theory Spec2Isabelle
  imports Complex_Main
begin

section \<open>Python values shared by the modules\<close>

text \<open>
  A Python \<open>str\<close> is a sequence of Unicode code points, so it is modelled as a list of
  natural numbers. The literals of the source that are not ASCII (the \<open>detail\<close>
  texts of the HTTP errors) are written as their code points; ASCII literals are written
  with \<open>ascii\<close>.
\<close>

type_synonym pystr = "nat list"

definition ascii :: "string \<Rightarrow> pystr" where
  "ascii s = map of_char s"

text \<open>
  Timestamps are whole seconds since the epoch, the unit of the \<open>exp\<close> claim of a
  token. The value of every \<open>datetime.now()\<close> is an input of the model.
\<close>

type_synonym timestamp = int

text \<open>
  The exceptions the modelled code can raise. \<open>AttributeError\<close> carries the type name
  and the attribute, \<open>KeyError\<close> the missing key, \<open>ProviderError\<close> the message of an
  error raised by the OpenAI client.
\<close>

datatype py_exception =
    KeyError pystr
  | IndexError
  | AttributeError pystr pystr
  | ProviderError pystr

text \<open>\<open>HTTPException(status_code, detail, headers)\<close> of FastAPI.\<close>

record HTTPException =
  status_code :: nat
  detail :: pystr
  headers :: "(pystr \<times> pystr) list"

section \<open>models/user\_model.py\<close>

record User =
  username :: pystr
  email :: "pystr option"
  full_name :: "pystr option"
  disabled :: "bool option"

record UserInDB = User +
  hashed_password :: pystr

text \<open>\<open>UserUpdate\<close>: the body of the update request (fields \<open>email\<close>, \<open>full_name\<close>).\<close>

record UserUpdate =
  upd_email :: "pystr option"
  upd_full_name :: "pystr option"

section \<open>dao/user\_dao.py\<close>

type_synonym user_db = "pystr \<rightharpoonup> UserInDB"

definition root_user :: UserInDB where
  "root_user =
     \<lparr> username = ascii ''root'',
       email = Some (ascii ''root@163.com''),
       full_name = Some (ascii ''Administrator''),
       disabled = Some False,
       hashed_password =
         ascii ''$2b$12$jiHSlVYQc72WrfBlB2/vX.70MMYdWpKCkdsKoEajvwMv5x9sHzwdq'' \<rparr>"

definition fake_users_db :: user_db where
  "fake_users_db = [ascii ''root'' \<mapsto> root_user]"

definition get_user :: "user_db \<Rightarrow> pystr \<Rightarrow> UserInDB option" where
  "get_user db name = (case db name of Some user_dict \<Rightarrow> Some user_dict | None \<Rightarrow> None)"

text \<open>
  \<open>UserDAO.update_user\<close>. When \<open>get_user\<close> returns \<open>None\<close> the first attribute access
  on it raises \<open>AttributeError\<close>: the assignment of line 54 or of line 56, or, when
  neither runs, \<open>UserInDB.model_dump(None)\<close> on the right-hand side of line 58, which is
  evaluated before the key on its left. Line 54 of the source assigns the new email to
  \<open>current_user.username\<close>, and line 58 stores the record under that
  \<open>current_user.username\<close>.
\<close>

definition update_user ::
    "user_db \<Rightarrow> 'a User_scheme \<Rightarrow> py_exception + (UserInDB \<times> user_db)" where
  "update_user db user =
     (case get_user db (username user) of
        None \<Rightarrow>
          Inl (AttributeError (ascii ''NoneType'')
                 (if email user \<noteq> None then ascii ''username''
                  else if full_name user \<noteq> None then ascii ''full_name''
                  else ascii ''__pydantic_serializer__''))
      | Some current_user \<Rightarrow>
          let current_user1 =
                (case email user of
                   Some e \<Rightarrow> current_user\<lparr>username := e\<rparr>
                 | None \<Rightarrow> current_user);
              current_user2 =
                (case full_name user of
                   Some f \<Rightarrow> current_user1\<lparr>full_name := Some f\<rparr>
                 | None \<Rightarrow> current_user1)
          in Inr (current_user2, db(username current_user2 \<mapsto> current_user2)))"

definition save_user :: "user_db \<Rightarrow> UserInDB \<Rightarrow> UserInDB \<times> user_db" where
  "save_user db user = (user, db(username user \<mapsto> user))"

definition delete_user :: "user_db \<Rightarrow> pystr \<Rightarrow> py_exception + (UserInDB \<times> user_db)" where
  "delete_user db name =
     (case get_user db name of
        None \<Rightarrow> Inl (AttributeError (ascii ''NoneType'') (ascii ''disabled''))
      | Some current_user \<Rightarrow>
          let current_user1 = current_user\<lparr>disabled := Some True\<rparr>
          in Inr (current_user1, db(username current_user1 \<mapsto> current_user1)))"

definition list_user :: "user_db \<Rightarrow> user_db" where
  "list_user db = db"

section \<open>routers/user\_router.py: profile update and account deletion\<close>

definition update_user_info ::
    "user_db \<Rightarrow> UserUpdate \<Rightarrow> UserInDB \<Rightarrow> py_exception + (UserInDB \<times> user_db)" where
  "update_user_info db user_update current_user =
     update_user db
       (current_user\<lparr>email := upd_email user_update, full_name := upd_full_name user_update\<rparr>)"

text \<open>
  The answer of \<open>DELETE /user/del\<close>; its \<open>message\<close> entry is a constant text and is
  left out.
\<close>

record delete_response =
  deleted_user :: pystr
  deleted_at :: timestamp

definition delete_user_account ::
    "timestamp \<Rightarrow> user_db \<Rightarrow> 'a User_scheme \<Rightarrow> py_exception + (delete_response \<times> user_db)" where
  "delete_user_account now_utc db current_user =
     (case delete_user db (username current_user) of
        Inl e \<Rightarrow> Inl e
      | Inr (_, db1) \<Rightarrow>
          Inr (\<lparr>deleted_user = username current_user, deleted_at = now_utc\<rparr>, db1))"

section \<open>configs/jwt.py and utils/jwt\_util.py\<close>

text \<open>
  \<open>JWTConfig\<close>: the secret and the algorithm come from the environment and are inputs of
  the model; the lifetime of a token is the constant 30 (minutes).
\<close>

record JWTConfig =
  secret_key :: pystr
  algorithm :: pystr
  access_token_expire_minutes :: int

definition jwt_config :: "pystr \<Rightarrow> pystr \<Rightarrow> JWTConfig" where
  "jwt_config env_secret env_algorithm =
     \<lparr> secret_key = env_secret, algorithm = env_algorithm, access_token_expire_minutes = 30 \<rparr>"

text \<open>
  The claims of a token that the server writes or reads: the subject \<open>sub\<close> and the
  expiry \<open>exp\<close>.
\<close>

record jwt_payload =
  sub :: "pystr option"
  exp :: "timestamp option"

text \<open>
  Modelled from the spec: \<open>jwt.encode\<close> and \<open>jwt.decode\<close> of the PyJWT library, which
  is not part of the repository. Section 4.1 of the spec: a token is the payload signed
  with a secret and an algorithm; verifying it checks the signature and that the current
  time is before the expiry, and fails with an invalid-token error on a bad signature or a
  malformed token and with an expired-token error on expiry. A signature is modelled as
  the key and algorithm it was made with.
\<close>

datatype token =
    Malformed pystr
  | Signed jwt_payload pystr pystr

datatype jwt_error = InvalidTokenError | ExpiredSignatureError

definition jwt_encode :: "jwt_payload \<Rightarrow> pystr \<Rightarrow> pystr \<Rightarrow> token" where
  "jwt_encode payload key alg = Signed payload key alg"

definition jwt_decode ::
    "timestamp \<Rightarrow> token \<Rightarrow> pystr \<Rightarrow> pystr list \<Rightarrow> jwt_error + jwt_payload" where
  "jwt_decode now_utc tok key algorithms =
     (case tok of
        Malformed _ \<Rightarrow> Inl InvalidTokenError
      | Signed payload k a \<Rightarrow>
          if k = key \<and> a \<in> set algorithms then
            (case exp payload of
               Some e \<Rightarrow> if e \<le> now_utc then Inl ExpiredSignatureError else Inr payload
             | None \<Rightarrow> Inr payload)
          else Inl InvalidTokenError)"

text \<open>
  \<open>create_access_token\<close>; \<open>now_utc\<close> is the value of \<open>datetime.now(timezone.utc)\<close>. A
  \<open>timedelta\<close> is a number of seconds, and it is false when it is zero.
\<close>

definition create_access_token :: "JWTConfig \<Rightarrow> timestamp \<Rightarrow> jwt_payload \<Rightarrow> token" where
  "create_access_token cfg now_utc data =
     (let to_encode = data;
          expires_delta = 60 * access_token_expire_minutes cfg;
          expire = (if expires_delta \<noteq> 0 then now_utc + expires_delta
                    else now_utc + 60 * 15)
      in jwt_encode (to_encode\<lparr>exp := Some expire\<rparr>) (secret_key cfg) (algorithm cfg))"

definition decode_token :: "JWTConfig \<Rightarrow> timestamp \<Rightarrow> token \<Rightarrow> jwt_error + jwt_payload" where
  "decode_token cfg now_utc tok = jwt_decode now_utc tok (secret_key cfg) [algorithm cfg]"

section \<open>routers/user\_router.py: the dependencies that guard the protected routes\<close>

text \<open>The text \<open>Token\<close>, a space, and four Chinese characters (verification failed).\<close>

definition token_failed_detail :: pystr where
  "token_failed_detail = [84, 111, 107, 101, 110, 32, 39564, 35777, 22833, 36133]"

text \<open>Four Chinese characters (invalid user).\<close>

definition invalid_user_detail :: pystr where
  "invalid_user_detail = [26080, 25928, 29992, 25143]"

definition credentials_exception :: HTTPException where
  "credentials_exception =
     \<lparr> status_code = 401, detail = token_failed_detail,
       headers = [(ascii ''WWW-Authenticate'', ascii ''Bearer'')] \<rparr>"

definition get_current_user ::
    "JWTConfig \<Rightarrow> timestamp \<Rightarrow> user_db \<Rightarrow> token \<Rightarrow> HTTPException + UserInDB" where
  "get_current_user cfg now_utc db tok =
     (case decode_token cfg now_utc tok of
        Inl _ \<Rightarrow> Inl credentials_exception
      | Inr payload \<Rightarrow>
          (case sub payload of
             None \<Rightarrow> Inl credentials_exception
           | Some name \<Rightarrow>
               (case get_user db name of
                  None \<Rightarrow> Inl credentials_exception
                | Some user \<Rightarrow> Inr user)))"

text \<open>\<open>disabled\<close> is an \<open>Optional[bool]\<close>: \<open>None\<close> and \<open>False\<close> both let the user pass.\<close>

definition get_current_active_user :: "UserInDB \<Rightarrow> HTTPException + UserInDB" where
  "get_current_active_user current_user =
     (if disabled current_user = Some True
      then Inl \<lparr> status_code = 400, detail = invalid_user_detail, headers = [] \<rparr>
      else Inr current_user)"

text \<open>
  A protected route declares \<open>Depends(get_current_active_user)\<close>, which itself depends
  on \<open>get_current_user\<close>: the framework runs the two in this order and calls the body of
  the route, here \<open>endpoint\<close>, only when both return.
\<close>

definition protected_route ::
    "JWTConfig \<Rightarrow> timestamp \<Rightarrow> user_db \<Rightarrow> token \<Rightarrow> (UserInDB \<Rightarrow> HTTPException + 'a)
       \<Rightarrow> HTTPException + 'a" where
  "protected_route cfg now_utc db tok endpoint =
     (case get_current_user cfg now_utc db tok of
        Inl e \<Rightarrow> Inl e
      | Inr user \<Rightarrow>
          (case get_current_active_user user of
             Inl e \<Rightarrow> Inl e
           | Inr current_user \<Rightarrow> endpoint current_user))"

section \<open>configs/dash\_scope.py and models/chat\_model.py\<close>

text \<open>
  A Python \<open>float\<close> is only handed on to the provider, never computed with; it is
  modelled as a real number.
\<close>

type_synonym py_float = real

record ChatMessage =
  role :: pystr
  content :: pystr
  timestamp :: "timestamp option"

record ChatRequest =
  messages :: "ChatMessage list"
  model :: "pystr option"
  temperature :: "py_float option"
  max_tokens :: "int option"
  stream :: "bool option"

text \<open>\<open>ChatResponse\<close>, with the fields \<open>message\<close>, \<open>model\<close> and \<open>usage\<close>.\<close>

record ChatResponse =
  message :: ChatMessage
  response_model :: pystr
  usage :: "(pystr \<times> int) list option"

text \<open>\<open>StreamResponse\<close>, with the fields \<open>content\<close>, \<open>finished\<close>, \<open>model\<close> and \<open>timestamp\<close>.\<close>

record StreamResponse =
  sr_content :: pystr
  sr_finished :: bool
  sr_model :: pystr
  sr_timestamp :: timestamp

text \<open>
  The class \<open>DashScopeConfig\<close> has the attributes \<open>api_key\<close>, \<open>base_url\<close>,
  \<open>model_name\<close>, \<open>max_tokens\<close> and \<open>temperature\<close>. The chat router reads
  \<open>config.MODEL_NAME\<close>, which the class does not have: evaluating it raises
  \<open>AttributeError\<close>.
\<close>

definition config_model_name :: pystr where
  "config_model_name = ascii ''qwen3-max''"

definition config_MODEL_NAME :: "py_exception + pystr" where
  "config_MODEL_NAME = Inl (AttributeError (ascii ''DashScopeConfig'') (ascii ''MODEL_NAME''))"

section \<open>The OpenAI client and the clock\<close>

text \<open>
  The keyword arguments of \<open>client.chat.completions.create\<close>; \<open>api_messages\<close> holds the
  pairs of \<open>role\<close> and \<open>content\<close>, \<open>api_stream_options\<close> the entries of the
  \<open>stream_options\<close> dictionary (none when the argument is not passed).
\<close>

record api_call =
  api_model :: pystr
  api_messages :: "(pystr \<times> pystr) list"
  api_max_tokens :: "int option"
  api_temperature :: "py_float option"
  api_stream :: bool
  api_stream_options :: "(pystr \<times> bool) list"

text \<open>
  What the provider answers. A complete answer has its choices (each with the content of
  its message, possibly absent), the model and the usage. A streamed answer is a finite,
  lazily read sequence of chunks that either ends or raises while it is read; a chunk has
  choices, each with the content of its \<open>delta\<close>, possibly absent.
\<close>

record Choice =
  message_content :: "pystr option"

record ChatCompletion =
  cc_choices :: "Choice list"
  cc_model :: pystr
  cc_usage :: "(pystr \<times> int) list option"

record ChunkChoice =
  delta_content :: "pystr option"

record ChatCompletionChunk =
  choices :: "ChunkChoice list"

datatype chunk_stream =
    StreamEnd
  | StreamRaise py_exception
  | StreamChunk ChatCompletionChunk chunk_stream

text \<open>
  The surroundings of the server: \<open>clock k\<close> is the value of the \<open>k\<close>-th call of
  \<open>datetime.now()\<close>, \<open>py_repr\<close> is Python's \<open>repr\<close> on strings (the text of a
  \<open>KeyError\<close>), \<open>create\<close> and \<open>create_stream\<close> are the provider's answers to a call
  without and with \<open>stream=True\<close>; either may raise.
\<close>

record env =
  clock :: "nat \<Rightarrow> timestamp"
  py_repr :: "pystr \<Rightarrow> pystr"
  create :: "api_call \<Rightarrow> py_exception + ChatCompletion"
  create_stream :: "api_call \<Rightarrow> py_exception + chunk_stream"

text \<open>\<open>str(e)\<close> of an exception.\<close>

definition exc_str :: "env \<Rightarrow> py_exception \<Rightarrow> pystr" where
  "exc_str ev e =
     (case e of
        KeyError k \<Rightarrow> py_repr ev k
      | IndexError \<Rightarrow> ascii ''list index out of range''
      | AttributeError t a \<Rightarrow>
          [39] @ t @ [39] @ ascii '' object has no attribute '' @ [39] @ a @ [39]
      | ProviderError m \<Rightarrow> m)"

section \<open>routers/chat\_router.py\<close>

text \<open>
  What a response stream yields: the JSON of a \<open>StreamResponse\<close>, or the JSON of the
  error dictionary with its entries \<open>error\<close>, \<open>finished\<close> and \<open>timestamp\<close>. The
  framing as lines that start with \<open>data:\<close> is not modelled.
\<close>

datatype sse_event =
    StreamData StreamResponse
  | ErrorData pystr bool timestamp

text \<open>
  The state of the process: the dictionary \<open>chatHistory\<close>, the number of clock readings
  made so far, and the record, in the order they happened, of the appends to a log, the
  calls of the provider and the events yielded to the client.
\<close>

datatype effect =
    Appended pystr ChatMessage
  | UpstreamCall api_call
  | Yielded sse_event

record server_state =
  chatHistory :: "pystr \<rightharpoonup> ChatMessage list"
  ticks :: nat
  effects :: "effect list"

definition convert_messages_for_api :: "ChatMessage list \<Rightarrow> (pystr \<times> pystr) list" where
  "convert_messages_for_api msgs = map (\<lambda>msg. (role msg, content msg)) msgs"

text \<open>\<open>request.model or config.MODEL_NAME\<close>: \<open>None\<close> and the empty string are false.\<close>

definition model_or_default :: "ChatRequest \<Rightarrow> py_exception + pystr" where
  "model_or_default request =
     (case model request of
        None \<Rightarrow> config_MODEL_NAME
      | Some m \<Rightarrow> if m = [] then config_MODEL_NAME else Inr m)"

text \<open>
  \<open>chunk.choices and chunk.choices[0].delta.content\<close>: the content of the chunk when
  this is true, that is when there is a first choice and its content is a non-empty string.
\<close>

definition content_of_chunk :: "ChatCompletionChunk \<Rightarrow> pystr option" where
  "content_of_chunk chunk =
     (case choices chunk of
        [] \<Rightarrow> None
      | c # _ \<Rightarrow>
          (case delta_content c of
             None \<Rightarrow> None
           | Some chunk_content \<Rightarrow> if chunk_content = [] then None else Some chunk_content))"

text \<open>
  The loop \<open>for chunk in stream\<close> of \<open>generate_stream_response\<close>, from the accumulated
  content \<open>acc\<close> and the clock reading \<open>k\<close>: the events yielded, the clock reading
  reached, and the exception that ended the loop or the content accumulated at its end.
\<close>

fun relay_chunks ::
    "env \<Rightarrow> ChatRequest \<Rightarrow> chunk_stream \<Rightarrow> pystr \<Rightarrow> nat
       \<Rightarrow> sse_event list \<times> nat \<times> (py_exception + pystr)" where
  "relay_chunks ev request StreamEnd acc k = ([], k, Inr acc)"
| "relay_chunks ev request (StreamRaise e) acc k = ([], k, Inl e)"
| "relay_chunks ev request (StreamChunk chunk rest) acc k =
     (case content_of_chunk chunk of
        None \<Rightarrow> relay_chunks ev request rest acc k
      | Some chunk_content \<Rightarrow>
          (case model_or_default request of
             Inl e \<Rightarrow> ([], k, Inl e)
           | Inr m \<Rightarrow>
               (case relay_chunks ev request rest (acc @ chunk_content) (Suc k) of
                  (events, k1, r) \<Rightarrow>
                    (StreamData \<lparr> sr_content = chunk_content, sr_finished = False,
                                  sr_model = m, sr_timestamp = clock ev k \<rparr> # events,
                     k1, r))))"

text \<open>The \<open>except Exception\<close> branch: one error event, stamped with the clock.\<close>

definition stream_error ::
    "env \<Rightarrow> py_exception \<Rightarrow> sse_event list \<Rightarrow> server_state \<Rightarrow> sse_event list \<times> server_state" where
  "stream_error ev e events st =
     (let error_response = ErrorData (exc_str ev e) True (clock ev (ticks st))
      in (events @ [error_response],
          st\<lparr> ticks := Suc (ticks st), effects := effects st @ [Yielded error_response] \<rparr>))"

definition stream_call :: "ChatRequest \<Rightarrow> pystr \<Rightarrow> api_call" where
  "stream_call request m =
     \<lparr> api_model = m,
       api_messages = convert_messages_for_api (messages request),
       api_max_tokens = max_tokens request,
       api_temperature = temperature request,
       api_stream = True,
       api_stream_options = [(ascii ''include_usage'', True)] \<rparr>"

text \<open>
  \<open>generate_stream_response\<close>, read to its end by the client: the events it yields and
  the state it leaves.
\<close>

definition generate_stream_response ::
    "env \<Rightarrow> ChatRequest \<Rightarrow> pystr \<Rightarrow> server_state \<Rightarrow> sse_event list \<times> server_state" where
  "generate_stream_response ev request name st =
     (case model_or_default request of
        Inl e \<Rightarrow> stream_error ev e [] st
      | Inr m \<Rightarrow>
          let st1 = st\<lparr> effects := effects st @ [UpstreamCall (stream_call request m)] \<rparr>
          in (case create_stream ev (stream_call request m) of
                Inl e \<Rightarrow> stream_error ev e [] st1
              | Inr chunks \<Rightarrow>
                  (case relay_chunks ev request chunks [] (ticks st1) of
                     (events, k, r) \<Rightarrow>
                       let st2 = st1\<lparr> ticks := k, effects := effects st1 @ map Yielded events \<rparr>
                       in (case r of
                             Inl e \<Rightarrow> stream_error ev e events st2
                           | Inr accumulated_content \<Rightarrow>
                               if accumulated_content = [] then (events, st2)
                               else
                                 (case model_or_default request of
                                    Inl e \<Rightarrow> stream_error ev e events st2
                                  | Inr m2 \<Rightarrow>
                                      let final_response =
                                            \<lparr> sr_content = [], sr_finished = True, sr_model = m2,
                                              sr_timestamp = clock ev (ticks st2) \<rparr>;
                                          st3 = st2\<lparr> ticks := Suc (ticks st2) \<rparr>
                                      in (case chatHistory st3 name of
                                            None \<Rightarrow> stream_error ev (KeyError name) events st3
                                          | Some history \<Rightarrow>
                                              let assistant_message =
                                                    \<lparr> role = ascii ''assistant'',
                                                      content = accumulated_content,
                                                      timestamp = Some (clock ev (ticks st3)) \<rparr>
                                              in (events @ [StreamData final_response],
                                                  st3\<lparr> chatHistory :=
                                                         (chatHistory st3)(name \<mapsto> history @ [assistant_message]),
                                                       ticks := Suc (ticks st3),
                                                       effects := effects st3
                                                         @ [Appended name assistant_message,
                                                            Yielded (StreamData final_response)] \<rparr>)))))))"

text \<open>
  The \<open>detail\<close> texts of the chat route: the one for an answer without choices (\<open>AI\<close>
  and eight Chinese characters), and the prefix (eleven Chinese characters, a colon and a
  space) put before \<open>str(e)\<close> for any other exception.
\<close>

definition empty_response_detail :: pystr where
  "empty_response_detail = [65, 73, 27169, 22411, 36820, 22238, 20102, 31354, 21709, 24212]"

definition chat_error_prefix :: pystr where
  "chat_error_prefix =
     [22788, 29702, 32842, 22825, 35831, 27714, 26102, 21457, 29983, 38169, 35823, 58, 32]"

definition chat_error :: "env \<Rightarrow> py_exception \<Rightarrow> HTTPException" where
  "chat_error ev e =
     \<lparr> status_code = 500, detail = chat_error_prefix @ exc_str ev e, headers = [] \<rparr>"

text \<open>
  What the chat route returns: a \<open>ChatResponse\<close>, or a \<open>StreamingResponse\<close> around the
  generator, modelled by the events the generator yields when the client reads it to its
  end with no other request in between.
\<close>

datatype chat_result =
    Complete ChatResponse
  | Streaming "sse_event list"

definition completion_call :: "ChatRequest \<Rightarrow> pystr \<Rightarrow> api_call" where
  "completion_call request m =
     \<lparr> api_model = m,
       api_messages = convert_messages_for_api (messages request),
       api_max_tokens = max_tokens request,
       api_temperature = temperature request,
       api_stream = False,
       api_stream_options = [] \<rparr>"

text \<open>\<open>chatHistory[username].append(msg)\<close>, which raises \<open>KeyError\<close> without a log.\<close>

definition history_append ::
    "pystr \<Rightarrow> ChatMessage \<Rightarrow> server_state \<Rightarrow> py_exception + server_state" where
  "history_append name msg st =
     (case chatHistory st name of
        None \<Rightarrow> Inl (KeyError name)
      | Some history \<Rightarrow>
          Inr (st\<lparr> chatHistory := (chatHistory st)(name \<mapsto> history @ [msg]),
                  effects := effects st @ [Appended name msg] \<rparr>))"

definition chat ::
    "env \<Rightarrow> ChatRequest \<Rightarrow> 'a User_scheme \<Rightarrow> server_state
       \<Rightarrow> (HTTPException + chat_result) \<times> server_state" where
  "chat ev request current_user st =
     (let name = username current_user;
          st1 = (if chatHistory st name = None
                 then st\<lparr> chatHistory := (chatHistory st)(name \<mapsto> []) \<rparr> else st)
      in if messages request = [] then (Inl (chat_error ev IndexError), st1)
         else
           let user_message =
                 \<lparr> role = role (last (messages request)),
                   content = content (last (messages request)),
                   timestamp = Some (clock ev (ticks st1)) \<rparr>
           in (case history_append name user_message (st1\<lparr> ticks := Suc (ticks st1) \<rparr>) of
                 Inl e \<Rightarrow> (Inl (chat_error ev e), st1\<lparr> ticks := Suc (ticks st1) \<rparr>)
               | Inr st2 \<Rightarrow>
                   if stream request = Some True then
                     (case generate_stream_response ev request name st2 of
                        (events, st3) \<Rightarrow> (Inr (Streaming events), st3))
                   else
                     (case model_or_default request of
                        Inl e \<Rightarrow> (Inl (chat_error ev e), st2)
                      | Inr m \<Rightarrow>
                          let st3 = st2\<lparr> effects := effects st2
                                            @ [UpstreamCall (completion_call request m)] \<rparr>
                          in (case create ev (completion_call request m) of
                                Inl e \<Rightarrow> (Inl (chat_error ev e), st3)
                              | Inr response \<Rightarrow>
                                  (case cc_choices response of
                                     [] \<Rightarrow>
                                       (Inl \<lparr> status_code = 500, detail = empty_response_detail,
                                              headers = [] \<rparr>, st3)
                                   | c # _ \<Rightarrow>
                                       let assistant_message =
                                             \<lparr> role = ascii ''assistant'',
                                               content = (case message_content c of
                                                            Some x \<Rightarrow> x | None \<Rightarrow> []),
                                               timestamp = Some (clock ev (ticks st3)) \<rparr>
                                       in (case history_append name assistant_message
                                                  (st3\<lparr> ticks := Suc (ticks st3) \<rparr>) of
                                             Inl e \<Rightarrow>
                                               (Inl (chat_error ev e),
                                                st3\<lparr> ticks := Suc (ticks st3) \<rparr>)
                                           | Inr st4 \<Rightarrow>
                                               (Inr (Complete
                                                  \<lparr> message = assistant_message,
                                                    response_model = cc_model response,
                                                    usage = cc_usage response \<rparr>), st4)))))))"

text \<open>\<open>GET /chat/history\<close>: a copy of every message of the caller's log, in its order.\<close>

definition get_user_history :: "'a User_scheme \<Rightarrow> server_state \<Rightarrow> ChatMessage list" where
  "get_user_history current_user st =
     (case chatHistory st (username current_user) of
        None \<Rightarrow> []
      | Some history \<Rightarrow>
          map (\<lambda>msg. \<lparr> role = role msg, content = content msg, timestamp = timestamp msg \<rparr>)
            history)"

text \<open>
  \<open>DELETE /chat/history\<close>. The answer says whether there was a log (the two texts of its
  \<open>message\<close> entry), names the user, counts the deleted messages and is stamped.
\<close>

record clear_response =
  had_history :: bool
  cleared_user :: pystr
  deleted_messages :: nat
  cleared_at :: timestamp

definition clear_user_history ::
    "env \<Rightarrow> 'a User_scheme \<Rightarrow> server_state \<Rightarrow> clear_response \<times> server_state" where
  "clear_user_history ev current_user st =
     (let name = username current_user
      in (case chatHistory st name of
            Some history \<Rightarrow>
              let message_count = length history
              in (\<lparr> had_history = True, cleared_user = name,
                    deleted_messages = message_count, cleared_at = clock ev (ticks st) \<rparr>,
                  st\<lparr> chatHistory := (chatHistory st)(name := None), ticks := Suc (ticks st) \<rparr>)
          | None \<Rightarrow>
              (\<lparr> had_history = False, cleared_user = name,
                 deleted_messages = 0, cleared_at = clock ev (ticks st) \<rparr>,
               st\<lparr> ticks := Suc (ticks st) \<rparr>)))"

section \<open>Notions used to state the properties of the relay and of the log\<close>

text \<open>
  The fragments of a stream are the contents of its content-bearing chunks, in the order
  of the stream; its outcome is the exception raised while it is read, if any.
\<close>

fun stream_fragments :: "chunk_stream \<Rightarrow> pystr list" where
  "stream_fragments StreamEnd = []"
| "stream_fragments (StreamRaise e) = []"
| "stream_fragments (StreamChunk chunk rest) =
     (case content_of_chunk chunk of
        None \<Rightarrow> stream_fragments rest
      | Some c \<Rightarrow> c # stream_fragments rest)"

fun stream_outcome :: "chunk_stream \<Rightarrow> py_exception option" where
  "stream_outcome StreamEnd = None"
| "stream_outcome (StreamRaise e) = Some e"
| "stream_outcome (StreamChunk chunk rest) = stream_outcome rest"

text \<open>The events for a list of fragments, stamped with the clock readings from \<open>k\<close> on.\<close>

fun fragment_events :: "env \<Rightarrow> pystr \<Rightarrow> nat \<Rightarrow> pystr list \<Rightarrow> sse_event list" where
  "fragment_events ev m k [] = []"
| "fragment_events ev m k (c # cs) =
     StreamData \<lparr> sr_content = c, sr_finished = False, sr_model = m, sr_timestamp = clock ev k \<rparr>
       # fragment_events ev m (Suc k) cs"

text \<open>What an event shows of content and of the \<open>finished\<close> flag, and whether it is an error.\<close>

fun event_content :: "sse_event \<Rightarrow> pystr option" where
  "event_content (StreamData r) = Some (sr_content r)"
| "event_content (ErrorData e f t) = None"

fun event_finished :: "sse_event \<Rightarrow> bool" where
  "event_finished (StreamData r) = sr_finished r"
| "event_finished (ErrorData e f t) = f"

fun is_error_event :: "sse_event \<Rightarrow> bool" where
  "is_error_event (StreamData r) = False"
| "is_error_event (ErrorData e f t) = True"

fun is_append :: "effect \<Rightarrow> bool" where
  "is_append (Appended name msg) = True"
| "is_append (UpstreamCall c) = False"
| "is_append (Yielded e) = False"

text \<open>A sequence of appends to one user's log, stopping at the first that raises.\<close>

fun append_all :: "pystr \<Rightarrow> ChatMessage list \<Rightarrow> server_state \<Rightarrow> py_exception + server_state" where
  "append_all name [] st = Inr st"
| "append_all name (msg # msgs) st =
     (case history_append name msg st of
        Inl e \<Rightarrow> Inl e
      | Inr st1 \<Rightarrow> append_all name msgs st1)"

text \<open>
  The event that closes a completed stream, stamped with the \<open>k\<close>-th clock reading, and
  the assistant message stored for a list of fragments.
\<close>

definition sentinel :: "env \<Rightarrow> pystr \<Rightarrow> nat \<Rightarrow> sse_event" where
  "sentinel ev m k =
     StreamData \<lparr> sr_content = [], sr_finished = True, sr_model = m, sr_timestamp = clock ev k \<rparr>"

definition assistant_reply :: "env \<Rightarrow> nat \<Rightarrow> pystr list \<Rightarrow> ChatMessage" where
  "assistant_reply ev k fragments =
     \<lparr> role = ascii ''assistant'', content = concat fragments, timestamp = Some (clock ev k) \<rparr>"

section \<open>Concrete inputs\<close>

text \<open>
  Three streams: two fragments and then the chunk that only carries the usage; one
  fragment and then an error of the provider; no content at all.
\<close>

definition content_chunk :: "pystr \<Rightarrow> ChatCompletionChunk" where
  "content_chunk c = \<lparr> choices = [\<lparr> delta_content = Some c \<rparr>] \<rparr>"

definition usage_chunk :: ChatCompletionChunk where
  "usage_chunk = \<lparr> choices = [] \<rparr>"

definition hi_there_stream :: chunk_stream where
  "hi_there_stream =
     StreamChunk (content_chunk (ascii ''Hi''))
       (StreamChunk (content_chunk (ascii '' there'')) (StreamChunk usage_chunk StreamEnd))"

definition hi_then_raise_stream :: chunk_stream where
  "hi_then_raise_stream =
     StreamChunk (content_chunk (ascii ''Hi'')) (StreamRaise (ProviderError (ascii ''connection lost'')))"

definition silent_stream :: chunk_stream where
  "silent_stream = StreamChunk usage_chunk StreamEnd"

text \<open>
  Surroundings whose clock starts at 1000, whose provider answers a streamed call with the
  given stream and any other call with an answer without choices.
\<close>

definition example_env :: "chunk_stream \<Rightarrow> env" where
  "example_env chunks =
     \<lparr> clock = (\<lambda>k. 1000 + int k),
       py_repr = (\<lambda>k. [39] @ k @ [39]),
       create = (\<lambda>c. Inr \<lparr> cc_choices = [], cc_model = api_model c, cc_usage = None \<rparr>),
       create_stream = (\<lambda>c. Inr chunks) \<rparr>"

definition example_request :: "bool \<Rightarrow> ChatRequest" where
  "example_request streaming =
     \<lparr> messages = [\<lparr> role = ascii ''system'', content = ascii ''be brief'', timestamp = None \<rparr>,
                   \<lparr> role = ascii ''user'', content = ascii ''hello'', timestamp = Some 5 \<rparr>],
       model = Some config_model_name,
       temperature = Some (7 / 10),
       max_tokens = Some 2000,
       stream = Some streaming \<rparr>"

definition fresh_state :: server_state where
  "fresh_state = \<lparr> chatHistory = Map.empty, ticks = 0, effects = [] \<rparr>"

definition root_state :: server_state where
  "root_state = \<lparr> chatHistory = [ascii ''root'' \<mapsto> []], ticks = 0, effects = [] \<rparr>"

section \<open>Properties of the identity store\<close>

lemma ascii_eq_iff [simp]: "ascii s = ascii t \<longleftrightarrow> s = t"
  unfolding ascii_def by (simp add: inj_map_eq_map inj_of_char)

text \<open>
  Claim C3 (the code departs from it). The profile update is meant to change the email
  and the full name of the caller's record. Evaluated on the initial store with a new
  email for \<open>root\<close>: the record that comes back has the new email as its \<open>username\<close>
  and still the old email; it is stored under the new email as key; the record under
  \<open>root\<close> is the old one, its email not updated.
\<close>

theorem update_user_info_email_rekeys:
  "update_user_info fake_users_db
       \<lparr>upd_email = Some (ascii ''new@163.com''), upd_full_name = None\<rparr> root_user
     = Inr (root_user\<lparr>username := ascii ''new@163.com''\<rparr>,
            fake_users_db(ascii ''new@163.com'' \<mapsto> root_user\<lparr>username := ascii ''new@163.com''\<rparr>))
   \<and> email (root_user\<lparr>username := ascii ''new@163.com''\<rparr>) = Some (ascii ''root@163.com'')
   \<and> (fake_users_db(ascii ''new@163.com'' \<mapsto> root_user\<lparr>username := ascii ''new@163.com''\<rparr>))
        (ascii ''root'') = Some root_user"
  by (simp add: update_user_info_def update_user_def get_user_def fake_users_db_def
        root_user_def Let_def)

text \<open>
  Claim C8. Deleting the account of an existing user is a soft delete: the record stays in
  the store under its key with \<open>disabled\<close> set and every other field as it was, the
  listing of all users still has it, and none of the writing operations of the store
  removes a key.
\<close>

theorem delete_user_account_soft:
  assumes "db u = Some r" and "username r = u" and "username cu = u"
  shows "delete_user_account t db cu
           = Inr (\<lparr>deleted_user = u, deleted_at = t\<rparr>, db(u \<mapsto> r\<lparr>disabled := Some True\<rparr>))
       \<and> list_user (db(u \<mapsto> r\<lparr>disabled := Some True\<rparr>)) u = Some (r\<lparr>disabled := Some True\<rparr>)
       \<and> dom db \<subseteq> dom (db(u \<mapsto> r\<lparr>disabled := Some True\<rparr>))
       \<and> dom db \<subseteq> dom (snd (save_user db usr))
       \<and> (case update_user db upd of Inl e \<Rightarrow> True | Inr (x, db1) \<Rightarrow> dom db \<subseteq> dom db1)
       \<and> (case delete_user db v of Inl e \<Rightarrow> True | Inr (x, db1) \<Rightarrow> dom db \<subseteq> dom db1)"
  using assms
  by (auto simp: delete_user_account_def delete_user_def get_user_def list_user_def
        save_user_def update_user_def Let_def split: option.splits)

theorem delete_user_account_soft_witness:
  "fake_users_db (ascii ''root'') = Some root_user
   \<and> username root_user = ascii ''root''
   \<and> delete_user_account 7 fake_users_db root_user
       = Inr (\<lparr>deleted_user = ascii ''root'', deleted_at = 7\<rparr>,
              fake_users_db(ascii ''root'' \<mapsto> root_user\<lparr>disabled := Some True\<rparr>))
   \<and> list_user (fake_users_db(ascii ''root'' \<mapsto> root_user\<lparr>disabled := Some True\<rparr>))
        (ascii ''root'') = Some (root_user\<lparr>disabled := Some True\<rparr>)"
proof -
  have a: "fake_users_db (ascii ''root'') = Some root_user"
    by (simp add: fake_users_db_def)
  have b: "username root_user = ascii ''root''"
    by (simp add: root_user_def)
  show ?thesis
    using a b
      delete_user_account_soft
        [where db = fake_users_db and u = "ascii ''root''" and r = root_user
           and cu = root_user and t = 7 and usr = root_user and upd = root_user
           and v = "ascii ''root''"]
    by simp
qed

section \<open>Properties of tokens and of the guard\<close>

text \<open>
  Claim C4. A token issued at time \<open>T\<close> for a subject carries that subject and the expiry
  \<open>T\<close> plus 30 minutes. Verifying it at a time before \<open>T\<close> plus 30 minutes, such as
  \<open>T\<close> plus 29 minutes, gives back the payload with the same subject; at a time after
  \<open>T\<close> plus 30 minutes, such as \<open>T\<close> plus 31 minutes, it fails with the expiry error.
\<close>

theorem token_valid_for_30_minutes:
  fixes T :: timestamp and key alg s :: pystr
  defines "cfg \<equiv> jwt_config key alg"
  defines "tok \<equiv> create_access_token cfg T \<lparr>sub = Some s, exp = None\<rparr>"
  defines "payload \<equiv> \<lparr>sub = Some s, exp = Some (T + 30 * 60)\<rparr>"
  shows "tok = jwt_encode payload key alg
       \<and> (t < T + 30 * 60 \<longrightarrow> decode_token cfg t tok = Inr payload)
       \<and> decode_token cfg (T + 29 * 60) tok = Inr payload
       \<and> sub payload = Some s
       \<and> (T + 30 * 60 < t' \<longrightarrow> decode_token cfg t' tok = Inl ExpiredSignatureError)
       \<and> decode_token cfg (T + 31 * 60) tok = Inl ExpiredSignatureError"
  unfolding cfg_def tok_def payload_def
  by (simp add: jwt_config_def create_access_token_def jwt_encode_def decode_token_def
        jwt_decode_def)

theorem token_valid_for_30_minutes_witness:
  "(100::int) < 0 + 30 * 60
   \<and> decode_token (jwt_config (ascii ''k'') (ascii ''HS256'')) 100
       (create_access_token (jwt_config (ascii ''k'') (ascii ''HS256'')) 0
          \<lparr>sub = Some (ascii ''root''), exp = None\<rparr>)
     = Inr \<lparr>sub = Some (ascii ''root''), exp = Some 1800\<rparr>
   \<and> (0::int) + 30 * 60 < 2000
   \<and> decode_token (jwt_config (ascii ''k'') (ascii ''HS256'')) 2000
       (create_access_token (jwt_config (ascii ''k'') (ascii ''HS256'')) 0
          \<lparr>sub = Some (ascii ''root''), exp = None\<rparr>)
     = Inl ExpiredSignatureError"
  using token_valid_for_30_minutes
    [where T = 0 and t = 100 and t' = 2000 and key = "ascii ''k''"
       and alg = "ascii ''HS256''" and s = "ascii ''root''", THEN conjunct2]
  by simp

text \<open>
  Claim C5. When the token is valid (signature good, not expired) and its subject names a
  user of the store whose record is disabled, every protected route is refused with the
  status 400 and the invalid-user detail; the body of the route does not run.
\<close>

theorem disabled_user_rejected:
  assumes "decode_token cfg t tok = Inr payload"
    and "sub payload = Some name"
    and "db name = Some u"
    and "disabled u = Some True"
  shows "get_current_user cfg t db tok = Inr u
       \<and> get_current_active_user u
           = Inl \<lparr> status_code = 400, detail = invalid_user_detail, headers = [] \<rparr>
       \<and> protected_route cfg t db tok endpoint
           = Inl \<lparr> status_code = 400, detail = invalid_user_detail, headers = [] \<rparr>"
  using assms
  by (simp add: protected_route_def get_current_user_def get_current_active_user_def
        get_user_def)

theorem disabled_user_rejected_witness:
  "decode_token (jwt_config (ascii ''k'') (ascii ''HS256'')) 100
       (create_access_token (jwt_config (ascii ''k'') (ascii ''HS256'')) 0
          \<lparr>sub = Some (ascii ''root''), exp = None\<rparr>)
     = Inr \<lparr>sub = Some (ascii ''root''), exp = Some 1800\<rparr>
   \<and> (fake_users_db(ascii ''root'' \<mapsto> root_user\<lparr>disabled := Some True\<rparr>)) (ascii ''root'')
       = Some (root_user\<lparr>disabled := Some True\<rparr>)
   \<and> protected_route (jwt_config (ascii ''k'') (ascii ''HS256'')) 100
       (fake_users_db(ascii ''root'' \<mapsto> root_user\<lparr>disabled := Some True\<rparr>))
       (create_access_token (jwt_config (ascii ''k'') (ascii ''HS256'')) 0
          \<lparr>sub = Some (ascii ''root''), exp = None\<rparr>)
       (\<lambda>user. Inr (username user))
     = Inl \<lparr> status_code = 400, detail = invalid_user_detail, headers = [] \<rparr>"
proof -
  let ?cfg = "jwt_config (ascii ''k'') (ascii ''HS256'')"
  let ?tok = "create_access_token ?cfg 0 \<lparr>sub = Some (ascii ''root''), exp = None\<rparr>"
  let ?u = "root_user\<lparr>disabled := Some True\<rparr>"
  let ?db = "fake_users_db(ascii ''root'' \<mapsto> ?u)"
  have a: "decode_token ?cfg 100 ?tok = Inr \<lparr>sub = Some (ascii ''root''), exp = Some 1800\<rparr>"
    by (simp add: jwt_config_def create_access_token_def jwt_encode_def decode_token_def
          jwt_decode_def)
  have b: "sub \<lparr>sub = Some (ascii ''root''), exp = Some 1800\<rparr> = Some (ascii ''root'')"
    by simp
  have c: "?db (ascii ''root'') = Some ?u"
    by simp
  have d: "disabled ?u = Some True"
    by simp
  show ?thesis
    using a b c d
      disabled_user_rejected
        [where cfg = ?cfg and t = 100 and tok = ?tok and db = ?db and u = ?u
           and name = "ascii ''root''"
           and payload = "\<lparr>sub = Some (ascii ''root''), exp = Some 1800\<rparr>"
           and endpoint = "\<lambda>user. Inr (username user)"]
    by simp
qed

section \<open>Properties of the relay, of the chat route and of the conversation log\<close>

subsection \<open>The loop over the chunks\<close>

text \<open>
  When the model of the request resolves, the loop yields one event for each fragment, in
  the order of the stream, reads the clock once for each, and ends with the exception of
  the stream or with the fragments joined to what was accumulated.
\<close>

lemma relay_chunks_eq:
  assumes "model_or_default request = Inr m"
  shows "relay_chunks ev request s acc k =
           (fragment_events ev m k (stream_fragments s),
            k + length (stream_fragments s),
            (case stream_outcome s of
               None \<Rightarrow> Inr (acc @ concat (stream_fragments s))
             | Some e \<Rightarrow> Inl e))"
  using assms
  by (induction s arbitrary: acc k) (auto split: option.splits)

lemma fragment_events_view:
  "map (\<lambda>e. (event_content e, event_finished e, is_error_event e)) (fragment_events ev m k cs)
     = map (\<lambda>c. (Some c, False, False)) cs"
  by (induction cs arbitrary: k) auto

lemma fragment_events_no_error:
  "filter is_error_event (fragment_events ev m k cs) = []"
  by (induction cs arbitrary: k) auto

lemma content_of_chunk_nonempty: "content_of_chunk chunk = Some c \<Longrightarrow> c \<noteq> []"
  by (auto simp: content_of_chunk_def split: list.splits option.splits if_splits)

lemma concat_stream_fragments:
  "concat (stream_fragments s) = [] \<longleftrightarrow> stream_fragments s = []"
  by (induction s) (auto split: option.splits dest: content_of_chunk_nonempty)

lemma generate_stream_response_completed:
  assumes "model_or_default request = Inr m"
    and "create_stream ev (stream_call request m) = Inr chunks"
    and "stream_outcome chunks = None"
    and "stream_fragments chunks \<noteq> []"
    and "chatHistory st name = Some history"
  shows "generate_stream_response ev request name st =
           (fragment_events ev m (ticks st) (stream_fragments chunks)
              @ [sentinel ev m (ticks st + length (stream_fragments chunks))],
            st\<lparr> chatHistory := (chatHistory st)
                   (name \<mapsto> history
                      @ [assistant_reply ev (ticks st + length (stream_fragments chunks) + 1)
                           (stream_fragments chunks)]),
                ticks := ticks st + length (stream_fragments chunks) + 2,
                effects := effects st @ [UpstreamCall (stream_call request m)]
                  @ map Yielded (fragment_events ev m (ticks st) (stream_fragments chunks))
                  @ [Appended name
                       (assistant_reply ev (ticks st + length (stream_fragments chunks) + 1)
                          (stream_fragments chunks)),
                     Yielded (sentinel ev m (ticks st + length (stream_fragments chunks)))] \<rparr>)"
  using assms concat_stream_fragments [of chunks]
  by (simp add: generate_stream_response_def relay_chunks_eq Let_def sentinel_def
        assistant_reply_def)

lemma generate_stream_response_history:
  "chatHistory (snd (generate_stream_response ev request name st)) \<noteq> chatHistory st
   \<Longrightarrow> \<exists>m chunks. model_or_default request = Inr m
         \<and> create_stream ev (stream_call request m) = Inr chunks
         \<and> stream_outcome chunks = None"
  by (auto simp: generate_stream_response_def relay_chunks_eq stream_error_def Let_def
        split: sum.splits option.splits if_splits prod.splits)


lemma empty_detail_distinct: "empty_response_detail \<noteq> detail (chat_error ev e)"
  by (simp add: empty_response_detail_def chat_error_def chat_error_prefix_def)

lemma append_all_eq:
  "chatHistory st name = Some h \<Longrightarrow>
   append_all name msgs st =
     Inr (st\<lparr> chatHistory := (chatHistory st)(name \<mapsto> h @ msgs),
             effects := effects st @ map (Appended name) msgs \<rparr>)"
proof (induction msgs arbitrary: st h)
  case Nil
  then show ?case by (simp add: map_upd_triv)
next
  case (Cons msg msgs)
  let ?st1 = "st\<lparr> chatHistory := (chatHistory st)(name \<mapsto> h @ [msg]),
                   effects := effects st @ [Appended name msg] \<rparr>"
  have "chatHistory ?st1 name = Some (h @ [msg])" by simp
  from Cons.IH [OF this] Cons.prems show ?case
    by (simp add: history_append_def fun_upd_def cong: if_cong)
qed

lemma copy_messages:
  "map (\<lambda>msg. \<lparr> role = role msg, content = content msg, timestamp = timestamp msg \<rparr>) xs
     = xs"
  by (induction xs) auto

lemma count_user_assistant:
  "\<forall>m \<in> set msgs. role m = ascii ''user'' \<or> role m = ascii ''assistant'' \<Longrightarrow>
   length (filter (\<lambda>m. role m = ascii ''user'') msgs)
     + length (filter (\<lambda>m. role m = ascii ''assistant'') msgs) = length msgs"
  by (induction msgs) auto

subsection \<open>The claims on the relay\<close>

text \<open>
  Claim C1. Take a streaming completion whose call of the provider is made and returns a
  stream that ends normally and has at least one content-bearing fragment. Run for a user
  who has a log, the relay yields one event with \<open>finished\<close> false for each fragment,
  with that fragment's content and in the order of the stream, then appends to that log one
  assistant message whose content is the fragments joined, then yields one event with
  \<open>finished\<close> true and empty content; nothing else is yielded or appended. Run through
  the chat route (which creates the log when it is missing), the stream returned is the
  same and the log gains the user's message and then that assistant message.
\<close>

theorem stream_completed:
  fixes st :: server_state and current_user :: "'a User_scheme" and ev :: env
  assumes "model_or_default request = Inr m"
    and "create_stream ev (stream_call request m) = Inr chunks"
    and "stream_outcome chunks = None"
    and "stream_fragments chunks = fragments"
    and "fragments \<noteq> []"
  defines "n \<equiv> length fragments"
  shows "(chatHistory st name = Some history \<longrightarrow>
           generate_stream_response ev request name st =
             (fragment_events ev m (ticks st) fragments @ [sentinel ev m (ticks st + n)],
              st\<lparr> chatHistory := (chatHistory st)
                     (name \<mapsto> history @ [assistant_reply ev (ticks st + n + 1) fragments]),
                  ticks := ticks st + n + 2,
                  effects := effects st @ [UpstreamCall (stream_call request m)]
                    @ map Yielded (fragment_events ev m (ticks st) fragments)
                    @ [Appended name (assistant_reply ev (ticks st + n + 1) fragments),
                       Yielded (sentinel ev m (ticks st + n))] \<rparr>))
       \<and> map (\<lambda>e. (event_content e, event_finished e, is_error_event e))
            (fragment_events ev m k fragments @ [sentinel ev m k1])
           = map (\<lambda>c. (Some c, False, False)) fragments @ [(Some [], True, False)]
       \<and> (messages request \<noteq> [] \<and> stream request = Some True \<and> username current_user = name \<longrightarrow>
            fst (chat ev request current_user st)
              = Inr (Streaming (fragment_events ev m (Suc (ticks st)) fragments
                                  @ [sentinel ev m (Suc (ticks st) + n)]))
          \<and> chatHistory (snd (chat ev request current_user st))
              = (chatHistory st)
                  (name \<mapsto> (case chatHistory st name of None \<Rightarrow> [] | Some h \<Rightarrow> h)
                     @ [\<lparr> role = role (last (messages request)),
                          content = content (last (messages request)),
                          timestamp = Some (clock ev (ticks st)) \<rparr>,
                        assistant_reply ev (Suc (ticks st) + n + 1) fragments]))"
proof (intro conjI impI)
  assume "chatHistory st name = Some history"
  with assms show "generate_stream_response ev request name st =
             (fragment_events ev m (ticks st) fragments @ [sentinel ev m (ticks st + n)],
              st\<lparr> chatHistory := (chatHistory st)
                     (name \<mapsto> history @ [assistant_reply ev (ticks st + n + 1) fragments]),
                  ticks := ticks st + n + 2,
                  effects := effects st @ [UpstreamCall (stream_call request m)]
                    @ map Yielded (fragment_events ev m (ticks st) fragments)
                    @ [Appended name (assistant_reply ev (ticks st + n + 1) fragments),
                       Yielded (sentinel ev m (ticks st + n))] \<rparr>)"
    by (simp add: generate_stream_response_completed)
next
  show "map (\<lambda>e. (event_content e, event_finished e, is_error_event e))
            (fragment_events ev m k fragments @ [sentinel ev m k1])
           = map (\<lambda>c. (Some c, False, False)) fragments @ [(Some [], True, False)]"
    by (simp add: fragment_events_view sentinel_def)
next
  assume a: "messages request \<noteq> [] \<and> stream request = Some True \<and> username current_user = name"
  let ?old = "case chatHistory st name of None \<Rightarrow> [] | Some h \<Rightarrow> h"
  let ?um = "\<lparr> role = role (last (messages request)),
                          content = content (last (messages request)),
                          timestamp = Some (clock ev (ticks st)) \<rparr>"
  let ?st2 = "st\<lparr> ticks := Suc (ticks st),
                  chatHistory := (chatHistory st)(name \<mapsto> ?old @ [?um]),
                  effects := effects st @ [Appended name ?um] \<rparr>"
  have c: "chat ev request current_user st
             = (Inr (Streaming (fst (generate_stream_response ev request name ?st2))),
                snd (generate_stream_response ev request name ?st2))"
    using a
    by (auto simp: chat_def Let_def history_append_def split: prod.splits option.splits)
  have h: "chatHistory ?st2 name = Some (?old @ [?um])" by simp
  note g = generate_stream_response_completed
             [OF assms(1) assms(2) assms(3) _ h, unfolded assms(4), OF assms(5)]
  show "fst (chat ev request current_user st)
              = Inr (Streaming (fragment_events ev m (Suc (ticks st)) fragments
                                  @ [sentinel ev m (Suc (ticks st) + n)]))"
    by (simp add: c g n_def)
  show "chatHistory (snd (chat ev request current_user st))
              = (chatHistory st)
                  (name \<mapsto> ?old
                     @ [?um, assistant_reply ev (Suc (ticks st) + n + 1) fragments])"
    by (simp add: c g n_def)
qed

theorem stream_completed_witness:
  "map (\<lambda>e. (event_content e, event_finished e, is_error_event e))
       (fst (generate_stream_response (example_env hi_there_stream) (example_request True)
              (ascii ''root'') root_state))
     = [(Some (ascii ''Hi''), False, False), (Some (ascii '' there''), False, False),
        (Some [], True, False)]
   \<and> chatHistory (snd (generate_stream_response (example_env hi_there_stream)
                          (example_request True) (ascii ''root'') root_state)) (ascii ''root'')
     = Some [\<lparr> role = ascii ''assistant'', content = ascii ''Hi there'',
                timestamp = Some 1003 \<rparr>]"
proof -
  let ?ev = "example_env hi_there_stream"
  let ?rq = "example_request True"
  have a: "model_or_default ?rq = Inr config_model_name"
    by (simp add: model_or_default_def example_request_def config_model_name_def ascii_def)
  have b: "create_stream ?ev (stream_call ?rq config_model_name) = Inr hi_there_stream"
    by (simp add: example_env_def)
  have c: "stream_outcome hi_there_stream = None"
    by (simp add: hi_there_stream_def)
  have d: "stream_fragments hi_there_stream = [ascii ''Hi'', ascii '' there'']"
    by (simp add: hi_there_stream_def content_of_chunk_def content_chunk_def usage_chunk_def
          ascii_def)
  have e: "[ascii ''Hi'', ascii '' there''] \<noteq> []"
    by simp
  have f: "chatHistory root_state (ascii ''root'') = Some []"
    by (simp add: root_state_def)
  note t = stream_completed [OF a b c d e, where st = root_state and name = "ascii ''root''"
             and history = "[]", THEN conjunct1]
  from t f show ?thesis
    by (simp add: sentinel_def assistant_reply_def root_state_def example_env_def ascii_def)
qed

text \<open>
  Claim C2. Take a streaming completion whose call of the provider is made and returns a
  stream that raises while it is read. After the events of the fragments read before, the
  relay yields exactly one error event, with the text of the exception, \<open>finished\<close>
  true and a timestamp; it appends nothing, so the log is as it was. In general, a run of
  the relay that changes the log is one whose stream ended normally.
\<close>

theorem stream_failed:
  fixes st :: server_state
  assumes "model_or_default request = Inr m"
    and "create_stream ev (stream_call request m) = Inr chunks"
    and "stream_outcome chunks = Some e"
  defines "fragments \<equiv> stream_fragments chunks"
  defines "error_event \<equiv>
     ErrorData (exc_str ev e) True (clock ev (ticks st + length fragments))"
  defines "events \<equiv> fragment_events ev m (ticks st) fragments @ [error_event]"
  shows "generate_stream_response ev request name st =
           (events,
            st\<lparr> ticks := ticks st + length fragments + 1,
                effects := effects st @ [UpstreamCall (stream_call request m)]
                  @ map Yielded events \<rparr>)
       \<and> chatHistory (snd (generate_stream_response ev request name st)) = chatHistory st
       \<and> filter is_append (map Yielded events) = []
       \<and> filter is_error_event events = [error_event]
       \<and> map (\<lambda>e. (event_content e, event_finished e, is_error_event e)) events
           = map (\<lambda>c. (Some c, False, False)) fragments @ [(None, True, True)]
       \<and> (chatHistory (snd (generate_stream_response ev request1 name1 st1)) \<noteq> chatHistory st1
            \<longrightarrow> (\<exists>m1 chunks1. model_or_default request1 = Inr m1
                   \<and> create_stream ev (stream_call request1 m1) = Inr chunks1
                   \<and> stream_outcome chunks1 = None))"
  using assms generate_stream_response_history [of ev request1 name1 st1]
  by (simp add: generate_stream_response_def relay_chunks_eq fragment_events_view
        fragment_events_no_error stream_error_def Let_def filter_map comp_def)

theorem stream_failed_witness:
  "generate_stream_response (example_env hi_then_raise_stream) (example_request True)
       (ascii ''root'') root_state
     = ([StreamData \<lparr> sr_content = ascii ''Hi'', sr_finished = False,
                       sr_model = config_model_name, sr_timestamp = 1000 \<rparr>,
         ErrorData (ascii ''connection lost'') True 1001],
        root_state
          \<lparr> ticks := 2,
            effects := [UpstreamCall (stream_call (example_request True) config_model_name),
                        Yielded (StreamData \<lparr> sr_content = ascii ''Hi'', sr_finished = False,
                                   sr_model = config_model_name, sr_timestamp = 1000 \<rparr>),
                        Yielded (ErrorData (ascii ''connection lost'') True 1001)] \<rparr>)"
proof -
  let ?ev = "example_env hi_then_raise_stream"
  let ?rq = "example_request True"
  have a: "model_or_default ?rq = Inr config_model_name"
    by (simp add: model_or_default_def example_request_def config_model_name_def ascii_def)
  have b: "create_stream ?ev (stream_call ?rq config_model_name) = Inr hi_then_raise_stream"
    by (simp add: example_env_def)
  have c: "stream_outcome hi_then_raise_stream = Some (ProviderError (ascii ''connection lost''))"
    by (simp add: hi_then_raise_stream_def)
  have d: "stream_fragments hi_then_raise_stream = [ascii ''Hi'']"
    by (simp add: hi_then_raise_stream_def content_of_chunk_def content_chunk_def ascii_def)
  note t = stream_failed [OF a b c, where st = root_state and name = "ascii ''root''",
             THEN conjunct1]
  from t show ?thesis
    by (simp add: d root_state_def example_env_def exc_str_def)
qed

text \<open>
  Claim C10. Take a streaming completion whose call of the provider is made and returns a
  stream that ends normally without any content-bearing fragment. The relay yields no
  event at all, in particular no event with \<open>finished\<close> true, and leaves the log and the
  clock as they were: the only effect is the call of the provider.
\<close>

theorem stream_without_content:
  assumes "model_or_default request = Inr m"
    and "create_stream ev (stream_call request m) = Inr chunks"
    and "stream_outcome chunks = None"
    and "stream_fragments chunks = []"
  shows "generate_stream_response ev request name st
           = ([], st\<lparr> effects := effects st @ [UpstreamCall (stream_call request m)] \<rparr>)"
  using assms
  by (simp add: generate_stream_response_def relay_chunks_eq Let_def)

theorem stream_without_content_witness:
  "generate_stream_response (example_env silent_stream) (example_request True)
       (ascii ''root'') root_state
     = ([], root_state
              \<lparr> effects := [UpstreamCall (stream_call (example_request True) config_model_name)] \<rparr>)"
proof -
  let ?ev = "example_env silent_stream"
  let ?rq = "example_request True"
  have a: "model_or_default ?rq = Inr config_model_name"
    by (simp add: model_or_default_def example_request_def config_model_name_def ascii_def)
  have b: "create_stream ?ev (stream_call ?rq config_model_name) = Inr silent_stream"
    by (simp add: example_env_def)
  have c: "stream_outcome silent_stream = None"
    by (simp add: silent_stream_def)
  have d: "stream_fragments silent_stream = []"
    by (simp add: silent_stream_def content_of_chunk_def usage_chunk_def)
  from stream_without_content [OF a b c d, where st = root_state and name = "ascii ''root''"]
  show ?thesis
    by (simp add: root_state_def)
qed

subsection \<open>The claims on the chat route\<close>

text \<open>
  Claim C6. Take a chat request that is not streaming, has a message, and whose call of
  the provider is made and answered without choices. The route fails with the status 500
  and the detail of the empty answer, which no other failure of the route carries (all
  others start with the prefix of the general error); it returns no answer, and the only
  append to the log is the user's message.
\<close>

theorem empty_completion_fails:
  fixes st :: server_state and current_user :: "'a User_scheme" and ev :: env
  assumes "messages request \<noteq> []"
    and "stream request \<noteq> Some True"
    and "model_or_default request = Inr m"
    and "create ev (completion_call request m) = Inr response"
    and "cc_choices response = []"
  defines "name \<equiv> username current_user"
  defines "user_message \<equiv>
     \<lparr> role = role (last (messages request)), content = content (last (messages request)),
       timestamp = Some (clock ev (ticks st)) \<rparr>"
  shows "chat ev request current_user st =
           (Inl \<lparr> status_code = 500, detail = empty_response_detail, headers = [] \<rparr>,
            st\<lparr> ticks := Suc (ticks st),
                chatHistory := (chatHistory st)
                   (name \<mapsto> (case chatHistory st name of None \<Rightarrow> [] | Some h \<Rightarrow> h)
                              @ [user_message]),
                effects := effects st @ [Appended name user_message,
                                         UpstreamCall (completion_call request m)] \<rparr>)
       \<and> empty_response_detail \<noteq> detail (chat_error ev e)"
  using assms
  by (auto simp: chat_def history_append_def Let_def empty_detail_distinct)

theorem empty_completion_fails_witness:
  "chat (example_env silent_stream) (example_request False) root_user fresh_state
     = (Inl \<lparr> status_code = 500, detail = empty_response_detail, headers = [] \<rparr>,
        fresh_state
          \<lparr> ticks := 1,
            chatHistory := [ascii ''root'' \<mapsto>
              [\<lparr> role = ascii ''user'', content = ascii ''hello'', timestamp = Some 1000 \<rparr>]],
            effects := [Appended (ascii ''root'')
                          \<lparr> role = ascii ''user'', content = ascii ''hello'',
                            timestamp = Some 1000 \<rparr>,
                        UpstreamCall (completion_call (example_request False) config_model_name)] \<rparr>)"
proof -
  let ?ev = "example_env silent_stream"
  let ?rq = "example_request False"
  have a: "messages ?rq \<noteq> []"
    by (simp add: example_request_def)
  have b: "stream ?rq \<noteq> Some True"
    by (simp add: example_request_def)
  have c: "model_or_default ?rq = Inr config_model_name"
    by (simp add: model_or_default_def example_request_def config_model_name_def ascii_def)
  have d: "create ?ev (completion_call ?rq config_model_name)
             = Inr \<lparr> cc_choices = [], cc_model = config_model_name, cc_usage = None \<rparr>"
    by (simp add: example_env_def completion_call_def)
  have e: "cc_choices \<lparr> cc_choices = [], cc_model = config_model_name, cc_usage = None \<rparr> = []"
    by simp
  note t = empty_completion_fails [OF a b c d e, where st = fresh_state
             and current_user = root_user, THEN conjunct1]
  from t show ?thesis
    by (simp add: fresh_state_def root_user_def example_request_def example_env_def)
qed



subsection \<open>The claim on the conversation log\<close>

text \<open>
  Claim C7. For a user without a log, the history is empty and clearing reports 0 deleted
  messages. For a user with a log, after any sequence of appends the history is the old
  log followed by the appended messages in the order of the appends; when the log started
  empty and the sequence is made of \<open>N\<close> user and \<open>M\<close> assistant messages, the
  history has \<open>N + M\<close> messages. Clearing then reports the number of messages that were in
  the log, and the history after it is empty.
\<close>

theorem history_in_append_order:
  fixes st :: server_state and current_user :: "'a User_scheme" and ev :: env
  assumes "username current_user = name"
  shows "(chatHistory st name = None \<longrightarrow>
            get_user_history current_user st = []
          \<and> deleted_messages (fst (clear_user_history ev current_user st)) = 0
          \<and> get_user_history current_user (snd (clear_user_history ev current_user st)) = [])
       \<and> (chatHistory st name = Some history \<longrightarrow>
            (\<exists>st1. append_all name msgs st = Inr st1
               \<and> get_user_history current_user st1 = history @ msgs
               \<and> deleted_messages (fst (clear_user_history ev current_user st1))
                   = length history + length msgs
               \<and> get_user_history current_user (snd (clear_user_history ev current_user st1)) = []
               \<and> (history = []
                    \<and> (\<forall>m \<in> set msgs. role m = ascii ''user'' \<or> role m = ascii ''assistant'')
                  \<longrightarrow> length (get_user_history current_user st1)
                        = length (filter (\<lambda>m. role m = ascii ''user'') msgs)
                          + length (filter (\<lambda>m. role m = ascii ''assistant'') msgs))))"
  using assms
  by (auto simp: append_all_eq get_user_history_def clear_user_history_def Let_def
        count_user_assistant copy_messages)

theorem history_in_append_order_witness:
  "get_user_history root_user fresh_state = []
   \<and> deleted_messages (fst (clear_user_history (example_env silent_stream) root_user fresh_state)) = 0
   \<and> chatHistory root_state (ascii ''root'') = Some []
   \<and> (\<exists>st1. append_all (ascii ''root'')
                [\<lparr> role = ascii ''user'', content = ascii ''hello'', timestamp = None \<rparr>,
                 \<lparr> role = ascii ''assistant'', content = ascii ''Hi there'', timestamp = None \<rparr>]
                root_state = Inr st1
          \<and> get_user_history root_user st1
               = [\<lparr> role = ascii ''user'', content = ascii ''hello'', timestamp = None \<rparr>,
                  \<lparr> role = ascii ''assistant'', content = ascii ''Hi there'', timestamp = None \<rparr>]
          \<and> deleted_messages (fst (clear_user_history (example_env silent_stream) root_user st1)) = 2
          \<and> get_user_history root_user
                (snd (clear_user_history (example_env silent_stream) root_user st1)) = []
          \<and> length (get_user_history root_user st1) = 1 + 1)"
proof -
  let ?ev = "example_env silent_stream"
  let ?msgs = "[\<lparr> role = ascii ''user'', content = ascii ''hello'', timestamp = None \<rparr>,
                \<lparr> role = ascii ''assistant'', content = ascii ''Hi there'', timestamp = None \<rparr>]"
  have a: "username root_user = ascii ''root''"
    by (simp add: root_user_def)
  have n: "chatHistory fresh_state (ascii ''root'') = None"
    by (simp add: fresh_state_def)
  have s: "chatHistory root_state (ascii ''root'') = Some []"
    by (simp add: root_state_def)
  note t1 = history_in_append_order [OF a, where st = fresh_state and ev = ?ev, THEN conjunct1]
  note t2 = history_in_append_order [OF a, where st = root_state and ev = ?ev
              and history = "[]" and msgs = ?msgs, THEN conjunct2]
  from t1 n have p1: "get_user_history root_user fresh_state = []
      \<and> deleted_messages (fst (clear_user_history ?ev root_user fresh_state)) = 0"
    by simp
  from t2 s obtain st1 where p2: "append_all (ascii ''root'') ?msgs root_state = Inr st1"
      "get_user_history root_user st1 = ?msgs"
      "deleted_messages (fst (clear_user_history ?ev root_user st1)) = 2"
      "get_user_history root_user (snd (clear_user_history ?ev root_user st1)) = []"
    by auto
  from p1 p2 s show ?thesis
    by simp
qed

end
